theory Spec2Isabelle
  imports Complex_Main "HOL-Library.Log_Nat" "HOL-Library.Monad_Syntax"
begin

section \<open>Single-precision arithmetic\<close>

text \<open>
  The tensors of \<^verbatim>\<open>random_resized_crop.py\<close> are \<^verbatim>\<open>tf.float32\<close> scalars. A finite
  single-precision value is modelled by the real number it denotes, and an arithmetic
  operation computes the exact result and rounds it to the nearest single-precision
  value, ties to the even significand (IEEE 754 binary32). Every binary32 value is an
  integer multiple of \<open>2 ^ -149\<close> with a significand of at most 24 bits; overflow to
  infinity is not modelled (every value that reaches a rectangle has been clipped to
  \<open>[0, 1]\<close> first).
\<close>

definition round_half_even :: "real \<Rightarrow> int" where
  "round_half_even x =
     (let f = \<lfloor>x\<rfloor>; d = x - of_int f
      in if d < 1 / 2 then f else if 1 / 2 < d then f + 1 else if even f then f else f + 1)"

definition float32_round :: "real \<Rightarrow> real" where
  "float32_round x =
     (let k = bitlen \<lfloor>\<bar>x\<bar> * 2 ^ 149\<rfloor> - 24
      in if k \<le> 0 then of_int (round_half_even (x * 2 ^ 149)) / 2 ^ 149
         else of_int (round_half_even (x * 2 ^ 149 / 2 ^ nat k)) * 2 ^ nat k / 2 ^ 149)"

text \<open>
  \<^verbatim>\<open>+\<close>, \<^verbatim>\<open>-\<close>, \<^verbatim>\<open>*\<close> and \<^verbatim>\<open>/\<close> on float32 tensors, and \<^verbatim>\<open>tf.sqrt\<close>. The values the
  two factor samplers return are taken to be float32 scalars as well. Where IEEE
  arithmetic leaves the finite numbers (a zero divisor, the square root of a negative
  number; Python floats raise ZeroDivisionError at the first) the result is \<open>None\<close>:
  the model does not describe the infinities and NaNs that follow.
\<close>

definition tf_add :: "real \<Rightarrow> real \<Rightarrow> real" where
  "tf_add x y = float32_round (x + y)"

definition tf_subtract :: "real \<Rightarrow> real \<Rightarrow> real" where
  "tf_subtract x y = float32_round (x - y)"

definition tf_multiply :: "real \<Rightarrow> real \<Rightarrow> real" where
  "tf_multiply x y = float32_round (x * y)"

definition tf_truediv :: "real \<Rightarrow> real \<Rightarrow> real option" where
  "tf_truediv x y = (if y = 0 then None else Some (float32_round (x / y)))"

definition tf_sqrt :: "real \<Rightarrow> real option" where
  "tf_sqrt x = (if x < 0 then None else Some (float32_round (sqrt x)))"

definition tf_minimum :: "real \<Rightarrow> real \<Rightarrow> real" where
  "tf_minimum x y = min x y"

definition tf_maximum :: "real \<Rightarrow> real \<Rightarrow> real" where
  "tf_maximum x y = max x y"

text \<open>\<^verbatim>\<open>tf.clip_by_value\<close> is \<^verbatim>\<open>maximum(minimum(t, clip_value_max), clip_value_min)\<close>.\<close>

definition tf_clip_by_value :: "real \<Rightarrow> real \<Rightarrow> real \<Rightarrow> real" where
  "tf_clip_by_value t clip_value_min clip_value_max =
     tf_maximum (tf_minimum t clip_value_max) clip_value_min"

section \<open>RandomResizedCrop: the rectangle sampler\<close>

text \<open>
  The layer object. A factor sampler is a callable that reads and advances a random
  state \<open>'g\<close> and returns a scalar; the layer holds two of them. The generator
  \<^verbatim>\<open>self._random_generator\<close> is created by the base class, so its \<^verbatim>\<open>random_uniform\<close>
  is a parameter \<open>random_uniform s minval maxval\<close> of the methods that draw from it.
  The arguments \<^verbatim>\<open>image\<close>, \<^verbatim>\<open>label\<close> and \<^verbatim>\<open>bounding_box\<close> of
  \<^verbatim>\<open>get_random_transformation\<close> are not used and are left out.
\<close>

type_synonym 'g factor_sampler = "'g \<Rightarrow> real \<times> 'g"

type_synonym 'g random_uniform = "'g \<Rightarrow> real \<Rightarrow> real \<Rightarrow> real \<times> 'g"

record 's RandomResizedCrop =
  target_size :: "nat \<times> nat"
  aspect_ratio_factor :: 's
  area_factor :: 's
  interpolation :: string
  seed :: "int option"

definition get_random_transformation ::
  "'g random_uniform \<Rightarrow> 'g factor_sampler RandomResizedCrop \<Rightarrow> 'g
     \<Rightarrow> (real list list \<times> 'g) option" where
  "get_random_transformation random_uniform self s =
     (let (area_factor, s1) = area_factor self s;
          (aspect_ratio, s2) = aspect_ratio_factor self s1
      in do {
        quotient \<leftarrow> tf_truediv area_factor aspect_ratio;
        root_h \<leftarrow> tf_sqrt quotient;
        let new_height = tf_clip_by_value root_h 0 1;
        root_w \<leftarrow> tf_sqrt (tf_multiply area_factor aspect_ratio);
        let new_width = tf_clip_by_value root_w 0 1;
        let (height_offset, s3) =
              random_uniform s2 (tf_minimum 0 (tf_subtract 1 new_height))
                                (tf_maximum 0 (tf_subtract 1 new_height));
        let (width_offset, s4) =
              random_uniform s3 (tf_minimum 0 (tf_subtract 1 new_width))
                                (tf_maximum 0 (tf_subtract 1 new_width));
        let y1 = height_offset;
        let y2 = tf_add height_offset new_height;
        let x1 = width_offset;
        let x2 = tf_add width_offset new_width;
        Some ([[y1, x1, y2, x2]], s4)
      })"




subsection \<open>The algorithm of the specification\<close>

text \<open>
  Section 4.1 of the specification, step by step, in the same arithmetic:
  (2) the candidate height and width, (3) the two offsets, (4) the rectangle.
\<close>

definition spec_clip :: "real \<Rightarrow> real \<Rightarrow> real \<Rightarrow> real" where
  "spec_clip x lo hi = (if x < lo then lo else if hi < x then hi else x)"

definition spec_candidate_size :: "real \<Rightarrow> real \<Rightarrow> (real \<times> real) option" where
  "spec_candidate_size area aspect =
     do {
       q \<leftarrow> tf_truediv area aspect;
       rh \<leftarrow> tf_sqrt q;
       rw \<leftarrow> tf_sqrt (tf_multiply area aspect);
       Some (spec_clip rh 0 1, spec_clip rw 0 1)
     }"

definition spec_offsets ::
  "'g random_uniform \<Rightarrow> real \<Rightarrow> real \<Rightarrow> 'g \<Rightarrow> (real \<times> real) \<times> 'g" where
  "spec_offsets draw h w s =
     (let (height_offset, s') = draw s (min 0 (tf_subtract 1 h)) (max 0 (tf_subtract 1 h));
          (width_offset, s'') = draw s' (min 0 (tf_subtract 1 w)) (max 0 (tf_subtract 1 w))
      in ((height_offset, width_offset), s''))"

definition spec_sample ::
  "'g random_uniform \<Rightarrow> real \<Rightarrow> real \<Rightarrow> 'g \<Rightarrow> ((real \<times> real \<times> real \<times> real) \<times> 'g) option" where
  "spec_sample draw area aspect s =
     (case spec_candidate_size area aspect of
        None \<Rightarrow> None
      | Some (h, w) \<Rightarrow>
          (let ((height_offset, width_offset), s') = spec_offsets draw h w s
           in Some ((height_offset, width_offset,
                     tf_add height_offset h, tf_add width_offset w), s')))"

subsection \<open>Generators and samplers for examples\<close>

text \<open>
  A deterministic generator: the state counts the draws made so far, the \<open>n\<close>-th draw
  reads the \<open>n\<close>-th unit sample of a fixed sequence \<open>u\<close> and computes
  \<^verbatim>\<open>u * (maxval - minval) + minval\<close> in float32, as \<^verbatim>\<open>tf.random.uniform\<close> does. A
  sampler fixed at a value leaves the state alone; a sampler over a range makes one
  draw.
\<close>

definition unit_samples :: "real list \<Rightarrow> nat \<Rightarrow> real" where
  "unit_samples xs n = (if n < length xs then xs ! n else 0)"

definition stream_uniform :: "(nat \<Rightarrow> real) \<Rightarrow> nat random_uniform" where
  "stream_uniform u n minval maxval =
     (tf_add (tf_multiply (u n) (tf_subtract maxval minval)) minval, Suc n)"

definition constant_sampler :: "real \<Rightarrow> 'g factor_sampler" where
  "constant_sampler v s = (v, s)"

definition uniform_sampler :: "(nat \<Rightarrow> real) \<Rightarrow> real \<Rightarrow> real \<Rightarrow> nat factor_sampler" where
  "uniform_sampler u lower upper n = stream_uniform u n lower upper"

definition example_layer :: "real \<Rightarrow> real \<Rightarrow> 'g factor_sampler RandomResizedCrop" where
  "example_layer area aspect =
     \<lparr>target_size = (50, 50),
      aspect_ratio_factor = constant_sampler aspect,
      area_factor = constant_sampler area,
      interpolation = ''bilinear'',
      seed = None\<rparr>"

section \<open>Python values and exceptions\<close>

text \<open>
  Constructor arguments are dynamically typed. A tuple holds numbers; an instance of
  \<^verbatim>\<open>core.FactorSampler\<close> is an object known by its identity; \<open>PObject\<close> is an
  instance of any other class, named by that class. An exception carries its message,
  with \<^verbatim>\<open>{}\<close> where the f-string formats a value, and the values formatted.
\<close>

datatype pyval =
    PNone
  | PBool bool
  | PInt int
  | PFloat real
  | PStr string
  | PTuple "real list"
  | PFactorSampler nat
  | PObject string

datatype py_error =
    ValueError string "pyval list"
  | UnboundLocalError string
  | TypeError
  | KeyError string
  | InvalidArgumentError
  | OverflowError

text \<open>Truth value testing, and \<^verbatim>\<open>x or y\<close>: \<open>x\<close> when it is true, else \<open>y\<close>.\<close>

fun truthy :: "pyval \<Rightarrow> bool" where
  "truthy PNone = False"
| "truthy (PBool b) = b"
| "truthy (PInt i) = (i \<noteq> 0)"
| "truthy (PFloat x) = (x \<noteq> 0)"
| "truthy (PStr t) = (t \<noteq> [])"
| "truthy (PTuple xs) = (xs \<noteq> [])"
| "truthy (PFactorSampler n) = True"
| "truthy (PObject c) = True"

definition py_or :: "pyval \<Rightarrow> pyval \<Rightarrow> pyval" where
  "py_or x y = (if truthy x then x else y)"

text \<open>The number a value denotes in a comparison (\<^verbatim>\<open>bool\<close> is a subclass of \<^verbatim>\<open>int\<close>).\<close>

fun py_num :: "pyval \<Rightarrow> real option" where
  "py_num (PBool b) = Some (if b then 1 else 0)"
| "py_num (PInt i) = Some (of_int i)"
| "py_num (PFloat x) = Some x"
| "py_num v = None"

text \<open>\<^verbatim>\<open>v == c\<close> for a float \<open>c\<close>: numbers compare by value, anything else is unequal.\<close>

definition py_eq_float :: "pyval \<Rightarrow> real \<Rightarrow> bool" where
  "py_eq_float v c = (case py_num v of None \<Rightarrow> False | Some x \<Rightarrow> x = c)"

fun isinstance_int :: "pyval \<Rightarrow> bool" where
  "isinstance_int (PInt i) = True"
| "isinstance_int (PBool b) = True"
| "isinstance_int v = False"

text \<open>\<^verbatim>\<open>int(x)\<close> of a float truncates towards zero.\<close>

definition py_int :: "real \<Rightarrow> int" where
  "py_int x = (if 0 \<le> x then \<lfloor>x\<rfloor> else \<lceil>x\<rceil>)"

text \<open>
  A Python float is an IEEE 754 binary64 value: a significand of at most 53 bits, at
  integer multiples of \<open>2 ^ -1074\<close>; \<open>ieee_round p q\<close> rounds to the nearest value with
  a significand of \<open>p\<close> bits among the multiples of \<open>2 ^ -q\<close>, ties to even. \<^verbatim>\<open>n * x\<close> for an int \<open>n\<close> and a float \<open>x\<close>
  converts \<open>n\<close> to the nearest float, which raises OverflowError when that is not
  finite, and rounds the product; \<^verbatim>\<open>int\<close> of an infinite product raises
  OverflowError as well.
\<close>

definition ieee_round :: "nat \<Rightarrow> nat \<Rightarrow> real \<Rightarrow> real" where
  "ieee_round p q x =
     (let k = bitlen \<lfloor>\<bar>x\<bar> * 2 ^ q\<rfloor> - int p
      in if k \<le> 0 then of_int (round_half_even (x * 2 ^ q)) / 2 ^ q
         else of_int (round_half_even (x * 2 ^ q / 2 ^ nat k)) * 2 ^ nat k / 2 ^ q)"

definition float64_round :: "real \<Rightarrow> real" where
  "float64_round x = ieee_round 53 1074 x"

definition py_float_of_int :: "int \<Rightarrow> py_error + real" where
  "py_float_of_int n =
     (let y = float64_round (of_int n)
      in if 2 ^ 1024 \<le> \<bar>y\<bar> then Inl OverflowError else Inr y)"

definition py_mul_int_float :: "int \<Rightarrow> real \<Rightarrow> py_error + real" where
  "py_mul_int_float n x =
     (case py_float_of_int n of
        Inl e \<Rightarrow> Inl e
      | Inr y \<Rightarrow>
          (let p = float64_round (y * x)
           in if 2 ^ 1024 \<le> \<bar>p\<bar> then Inl OverflowError else Inr p))"

section \<open>RandomResizedCrop: construction\<close>

text \<open>
  \<^verbatim>\<open>preprocessing.parse_factor\<close> is defined outside the two source files; the
  constructor takes it as the parameter
  \<open>parse_factor param min_value max_value param_name seed\<close>, where \<open>min_value\<close> is
  \<open>None\<close> when the call leaves it to the default. The constructor returns the layer
  and the warnings it has emitted, or the exception it raises. A local variable that
  may be unassigned is an option; \<^verbatim>\<open>min\<close> and \<^verbatim>\<open>max\<close> of an empty tuple raise.
\<close>

type_synonym 's parse_factor =
  "pyval \<Rightarrow> real option \<Rightarrow> real \<Rightarrow> string \<Rightarrow> int option \<Rightarrow> py_error + 's"

definition default_aspect_ratio_factor :: pyval where
  "default_aspect_ratio_factor = PTuple [3 / 4, 4 / 3]"

definition no_augmentation_warning :: string where
  "no_augmentation_warning =
     ''RandomResizedCrop received both `area_factor=0.0` and '' @
     ''`aspect_ratio_factor=0.0`. As a result, the layer will perform no '' @
     ''augmentation.''"

definition aspect_ratio_message :: string where
  "aspect_ratio_message =
     ''Expected `aspect_ratio` to be tuple or FactorSampler. Received '' @
     ''RandomResizedCrop(aspect_ratio_factor={}).''"

definition RandomResizedCrop_init ::
  "'s parse_factor \<Rightarrow> nat \<times> nat \<Rightarrow> pyval \<Rightarrow> pyval \<Rightarrow> string \<Rightarrow> int option
     \<Rightarrow> py_error + ('s RandomResizedCrop \<times> string list)" where
  "RandomResizedCrop_init parse_factor target_size' area_factor' aspect_ratio_factor'
       interpolation' seed' =
     (let aspect_ratio_factor' = py_or aspect_ratio_factor' default_aspect_ratio_factor
      in case (case aspect_ratio_factor' of
                 PTuple [] \<Rightarrow> Inl (ValueError ''min() arg is an empty sequence'' [])
               | PTuple (x # xs) \<Rightarrow> Inr (Some (fold min xs x), Some (fold max xs x))
               | PFactorSampler n \<Rightarrow> Inr (None, None)
               | _ \<Rightarrow> Inl (ValueError aspect_ratio_message [aspect_ratio_factor'])) of
           Inl e \<Rightarrow> Inl e
         | Inr (min_aspect_ratio, max_aspect_ratio) \<Rightarrow>
             (case min_aspect_ratio of
                None \<Rightarrow> Inl (UnboundLocalError ''min_aspect_ratio'')
              | Some min_value \<Rightarrow>
             (case max_aspect_ratio of
                None \<Rightarrow> Inl (UnboundLocalError ''max_aspect_ratio'')
              | Some max_value \<Rightarrow>
             (case parse_factor aspect_ratio_factor' (Some min_value) max_value
                     ''aspect_ratio_factor'' seed' of
                Inl e \<Rightarrow> Inl e
              | Inr parsed_aspect_ratio_factor \<Rightarrow>
             (case parse_factor area_factor' None 1 ''area_factor'' seed' of
                Inl e \<Rightarrow> Inl e
              | Inr parsed_area_factor \<Rightarrow>
                  Inr (\<lparr>target_size = target_size',
                        aspect_ratio_factor = parsed_aspect_ratio_factor,
                        area_factor = parsed_area_factor,
                        interpolation = interpolation',
                        seed = seed'\<rparr>,
                       if py_eq_float area_factor' 0 \<and> py_eq_float aspect_ratio_factor' 0
                       then [no_augmentation_warning] else []))))))"

text \<open>The warnings a construction emits; none when it raises before the check.\<close>

definition emitted_warnings :: "py_error + ('a \<times> string list) \<Rightarrow> string list" where
  "emitted_warnings r = (case r of Inl e \<Rightarrow> [] | Inr (layer, ws) \<Rightarrow> ws)"

text \<open>
  A \<^verbatim>\<open>parse_factor\<close> for examples: a number \<open>c\<close> stands for the range from the lower
  bound to \<open>c\<close>, a tuple for its first two entries, a range of one point becomes a
  constant sampler and any other range a uniform one; bounds out of order or outside
  \<open>[min_value, max_value]\<close> raise.
\<close>

definition example_parse_factor :: "(nat \<Rightarrow> real) \<Rightarrow> nat factor_sampler parse_factor" where
  "example_parse_factor u param min_value max_value param_name seed' =
     (let lowest = (case min_value of None \<Rightarrow> 0 | Some m \<Rightarrow> m);
          bounds = (case param of
                     PTuple (a # b # rest) \<Rightarrow> Some (a, b)
                   | PFloat c \<Rightarrow> Some (lowest, c)
                   | PInt i \<Rightarrow> Some (lowest, of_int i)
                   | _ \<Rightarrow> None)
      in case bounds of
           None \<Rightarrow> Inl TypeError
         | Some (a, b) \<Rightarrow>
             if b < a \<or> a < lowest \<or> max_value < b
             then Inl (ValueError (param_name @ '' out of range'') [param])
             else if a = b then Inr (constant_sampler a)
             else Inr (uniform_sampler u a b))"

section \<open>RandomResizedCrop: cropping and resizing\<close>

text \<open>
  A tensor has a shape, a dtype (by name) and a value at each index. The resampling
  kernels \<^verbatim>\<open>tf.image.crop_and_resize\<close> and \<^verbatim>\<open>smart_resize\<close>, and \<^verbatim>\<open>tf.cast\<close>, are
  parameters; \<^verbatim>\<open>tf.expand_dims\<close> and \<^verbatim>\<open>tf.squeeze\<close> only change the shape.
\<close>

record tensor =
  shape :: "nat list"
  dtype :: string
  elements :: "nat list \<Rightarrow> real"

definition tf_expand_dims :: "tensor \<Rightarrow> nat \<Rightarrow> tensor" where
  "tf_expand_dims t axis =
     \<lparr>shape = take axis (shape t) @ [1] @ drop axis (shape t),
      dtype = dtype t,
      elements = (\<lambda>ix. elements t (take axis ix @ drop (Suc axis) ix))\<rparr>"

definition tf_squeeze :: "tensor \<Rightarrow> nat \<Rightarrow> py_error + tensor" where
  "tf_squeeze t axis =
     (if axis < length (shape t) \<and> shape t ! axis = 1
      then Inr \<lparr>shape = take axis (shape t) @ drop (Suc axis) (shape t),
                dtype = dtype t,
                elements = (\<lambda>ix. elements t (take axis ix @ [0] @ drop axis ix))\<rparr>
      else Inl InvalidArgumentError)"

type_synonym crop_and_resize =
  "tensor \<Rightarrow> real list list \<Rightarrow> nat list \<Rightarrow> nat \<times> nat \<Rightarrow> tensor"

definition augment_image ::
  "crop_and_resize \<Rightarrow> 's RandomResizedCrop \<Rightarrow> tensor \<Rightarrow> real list list
     \<Rightarrow> py_error + tensor" where
  "augment_image crop_and_resize self image' transformation =
     (let image' = tf_expand_dims image' 0;
          boxes = transformation;
          augmented_image = crop_and_resize image' boxes [0] (target_size self)
      in tf_squeeze augmented_image 0)"

text \<open>
  The members the layer inherits from \<^verbatim>\<open>BaseImageAugmentationLayer\<close>, which is
  defined outside the two source files: the compute dtype, the three input and
  output helpers, taken to be functions of their arguments alone, and the
  training-mode \<^verbatim>\<open>call\<close>, which threads the random state.
\<close>

datatype inputs = Tensor tensor | Dict "string \<Rightarrow> tensor option"

record 'g BaseImageAugmentationLayer =
  compute_dtype :: string
  ensure_inputs_are_compute_dtype :: "inputs \<Rightarrow> inputs"
  format_inputs :: "inputs \<Rightarrow> py_error + ((string \<Rightarrow> tensor option) \<times> bool \<times> bool)"
  format_output :: "(string \<Rightarrow> tensor option) \<Rightarrow> bool \<Rightarrow> bool \<Rightarrow> inputs"
  base_call :: "inputs \<Rightarrow> bool \<Rightarrow> 'g \<Rightarrow> py_error + (inputs \<times> 'g)"

type_synonym smart_resize = "tensor \<Rightarrow> nat \<times> nat \<Rightarrow> tensor"

type_synonym tf_cast = "tensor \<Rightarrow> string \<Rightarrow> tensor"

definition resize ::
  "'g BaseImageAugmentationLayer \<Rightarrow> smart_resize \<Rightarrow> tf_cast \<Rightarrow> 's RandomResizedCrop
     \<Rightarrow> tensor \<Rightarrow> tensor" where
  "resize base smart_resize tf_cast self image' =
     (let outputs = smart_resize image' (target_size self)
      in tf_cast outputs (compute_dtype base))"

definition call ::
  "'g BaseImageAugmentationLayer \<Rightarrow> smart_resize \<Rightarrow> tf_cast \<Rightarrow> 's RandomResizedCrop
     \<Rightarrow> inputs \<Rightarrow> bool \<Rightarrow> 'g \<Rightarrow> py_error + (inputs \<times> 'g)" where
  "call base smart_resize tf_cast self inputs' training s =
     (if training then base_call base inputs' training s
      else
        (let inputs' = ensure_inputs_are_compute_dtype base inputs'
         in case format_inputs base inputs' of
              Inl e \<Rightarrow> Inl e
            | Inr (inputs', is_dict, use_targets) \<Rightarrow>
                (case inputs' ''images'' of
                   None \<Rightarrow> Inl (KeyError ''images'')
                 | Some images \<Rightarrow>
                     (let output =
                            inputs'(''images'' \<mapsto> resize base smart_resize tf_cast self images)
                      in Inr (format_output base output is_dict use_targets, s)))))"

section \<open>SqueezeAndExciteBlock2D: construction\<close>

text \<open>
  The constructor of \<^verbatim>\<open>squeeze_excite.py\<close>. The Keras layer constructor
  \<^verbatim>\<open>layers.Conv2D(filters, (1, 1), activation=...)\<close> is the parameter \<open>conv2d\<close>.
  Past the two checks \<^verbatim>\<open>filters\<close> is an int and \<^verbatim>\<open>ratio\<close> a number, and
  \<^verbatim>\<open>self.filters * self.ratio\<close> is a float product when the ratio is a float and an
  exact product of ints otherwise.
\<close>

record 'c SqueezeAndExciteBlock2D =
  filters :: pyval
  ratio :: pyval
  bottleneck_filters :: int
  squeeze_activation :: string
  excite_activation :: string
  squeeze_conv :: 'c
  excite_conv :: 'c

definition ratio_message :: string where
  "ratio_message = ''`ratio` should be a float between 0 and 1. Got {}''"

definition filters_message :: string where
  "filters_message = ''`filters` should be a positive integer. Got {}''"

definition SqueezeAndExciteBlock2D_init ::
  "(int \<Rightarrow> string \<Rightarrow> py_error + 'c) \<Rightarrow> pyval \<Rightarrow> pyval \<Rightarrow> string \<Rightarrow> string
     \<Rightarrow> py_error + 'c SqueezeAndExciteBlock2D" where
  "SqueezeAndExciteBlock2D_init conv2d filters' ratio' squeeze_activation'
       excite_activation' =
     (case py_num ratio' of
        None \<Rightarrow> Inl TypeError
      | Some r \<Rightarrow>
          if r \<le> 0 \<or> 1 \<le> r then Inl (ValueError ratio_message [ratio'])
          else
            (case py_num filters' of
               None \<Rightarrow> Inl TypeError
             | Some f \<Rightarrow>
                 if f \<le> 0 \<or> \<not> isinstance_int filters'
                 then Inl (ValueError filters_message [filters'])
                 else
                   (case (case ratio' of
                            PFloat x \<Rightarrow> py_mul_int_float (py_int f) x
                          | _ \<Rightarrow> Inr (f * r)) of
                      Inl e \<Rightarrow> Inl e
                    | Inr product \<Rightarrow>
                   (let bottleneck_filters' = py_int product
                    in case conv2d bottleneck_filters' squeeze_activation' of
                         Inl e \<Rightarrow> Inl e
                       | Inr squeeze_conv' \<Rightarrow>
                           (case conv2d (py_int f) excite_activation' of
                              Inl e \<Rightarrow> Inl e
                            | Inr excite_conv' \<Rightarrow>
                                Inr \<lparr>filters = filters',
                                     ratio = ratio',
                                     bottleneck_filters = bottleneck_filters',
                                     squeeze_activation = squeeze_activation',
                                     excite_activation = excite_activation',
                                     squeeze_conv = squeeze_conv',
                                     excite_conv = excite_conv'\<rparr>)))))"

text \<open>What the specification asks of the two arguments.\<close>

definition ratio_in_open_unit :: "pyval \<Rightarrow> bool" where
  "ratio_in_open_unit v = (case py_num v of None \<Rightarrow> False | Some r \<Rightarrow> 0 < r \<and> r < 1)"

fun positive_integer :: "pyval \<Rightarrow> bool" where
  "positive_integer (PInt i) = (0 < i)"
| "positive_integer (PBool b) = b"
| "positive_integer v = False"

section \<open>Stand-ins for the external primitives, for examples\<close>

text \<open>
  Kernels that return a tensor of zeros of the documented shape, a cast that only
  relabels the dtype, base-class helpers that wrap a bare tensor as the \<^verbatim>\<open>images\<close>
  entry of a dictionary and unwrap it again.
\<close>

definition example_crop_and_resize :: crop_and_resize where
  "example_crop_and_resize img boxes box_indices crop_size =
     \<lparr>shape = [length boxes, fst crop_size, snd crop_size, shape img ! 3],
      dtype = ''float32'',
      elements = (\<lambda>ix. 0)\<rparr>"

definition example_smart_resize :: smart_resize where
  "example_smart_resize x size' =
     \<lparr>shape = take (length (shape x) - 3) (shape x) @ [fst size', snd size', last (shape x)],
      dtype = ''float32'',
      elements = (\<lambda>ix. 0)\<rparr>"

definition example_cast :: tf_cast where
  "example_cast x d = x\<lparr>dtype := d\<rparr>"

definition example_base :: "'g BaseImageAugmentationLayer" where
  "example_base =
     \<lparr>compute_dtype = ''float16'',
      ensure_inputs_are_compute_dtype =
        (\<lambda>x. case x of
                Tensor t \<Rightarrow> Tensor (example_cast t ''float16'')
              | Dict d \<Rightarrow> Dict (map_option (\<lambda>t. example_cast t ''float16'') \<circ> d)),
      format_inputs =
        (\<lambda>x. case x of
                Tensor t \<Rightarrow> Inr ([''images'' \<mapsto> t], False, False)
              | Dict d \<Rightarrow> Inr (d, True, False)),
      format_output =
        (\<lambda>out is_dict use_targets.
           if is_dict then Dict out
           else (case out ''images'' of None \<Rightarrow> Dict out | Some t \<Rightarrow> Tensor t)),
      base_call = (\<lambda>x training s. Inr (x, s))\<rparr>"

definition example_image :: "nat list \<Rightarrow> tensor" where
  "example_image dims = \<lparr>shape = dims, dtype = ''uint8'', elements = (\<lambda>ix. 0)\<rparr>"

text \<open>
  The constructor of the Keras \<^verbatim>\<open>Conv2D\<close> layer raises a ValueError unless the number
  of filters is strictly positive.
\<close>

definition keras_filters_message :: string where
  "keras_filters_message =
     ''Invalid value for argument `filters`. Expected a strictly positive value. '' @
     ''Received filters={}.''"

definition keras_conv2d :: "int \<Rightarrow> string \<Rightarrow> py_error + (int \<times> string)" where
  "keras_conv2d n activation =
     (if n \<le> 0 then Inl (ValueError keras_filters_message [PInt n])
      else Inr (n, activation))"

section \<open>Facts about the arithmetic\<close>

lemma round_half_even_nonneg: "0 \<le> x \<Longrightarrow> 0 \<le> round_half_even x"
  by (auto simp: round_half_even_def Let_def)

lemma float32_round_nonneg: "0 \<le> x \<Longrightarrow> 0 \<le> float32_round x"
  by (auto simp: float32_round_def Let_def
      intro!: round_half_even_nonneg divide_nonneg_nonneg mult_nonneg_nonneg)

lemma float32_round_0 [simp]: "float32_round 0 = 0"
  by (simp add: float32_round_def round_half_even_def)

lemma float32_round_1 [simp]: "float32_round 1 = 1"
  by code_simp

lemma float32_examples:
  "float32_round (1 / 16) = 1 / 16"
  "float32_round (1 / 4) = 1 / 4"
  "float32_round (3 / 4) = 3 / 4"
  "float32_round (8388609 / 33554432) = 8388609 / 33554432"
  "float32_round (16777217 / 33554432) = 1 / 2"
  by code_simp+

lemma round_half_even_error: "\<bar>of_int (round_half_even y) - y\<bar> \<le> 1 / 2"
  unfolding round_half_even_def Let_def by (auto; linarith)

text \<open>Below \<open>2\<close> a float32 value has at least 23 binary places: rounding moves a number by at most \<open>2 ^ -24\<close>.\<close>

lemma float32_round_error_below_2:
  assumes "0 \<le> x" "x < 2"
  shows "\<bar>float32_round x - x\<bar> \<le> 1 / 2 ^ 24"
proof -
  define k where "k = bitlen \<lfloor>\<bar>x\<bar> * 2 ^ 149\<rfloor> - 24"
  have "\<bar>x\<bar> * 2 ^ 149 < 2 ^ 150" using assms by simp
  then have "\<lfloor>\<bar>x\<bar> * 2 ^ 149\<rfloor> < 2 ^ 150"
    by (simp add: floor_less_iff)
  then have "bitlen \<lfloor>\<bar>x\<bar> * 2 ^ 149\<rfloor> \<le> 150"
    by (simp add: bitlen_le_iff_power)
  then have k: "k \<le> 126" by (simp add: k_def)
  show ?thesis
  proof (cases "k \<le> 0")
    case True
    then have eq: "float32_round x = of_int (round_half_even (x * 2 ^ 149)) / 2 ^ 149"
      by (simp add: float32_round_def k_def Let_def)
    have "\<bar>float32_round x - x\<bar>
            = \<bar>of_int (round_half_even (x * 2 ^ 149)) - x * 2 ^ 149\<bar> / 2 ^ 149"
      unfolding eq by (simp add: field_simps)
    also have "\<dots> \<le> (1 / 2) / 2 ^ 149"
      by (intro divide_right_mono round_half_even_error) simp
    also have "\<dots> \<le> 1 / 2 ^ 24" by simp
    finally show ?thesis .
  next
    case False
    define z where "z = x * 2 ^ 149 / 2 ^ nat k"
    define c :: real where "c = 2 ^ nat k / 2 ^ 149"
    have c_pos: "0 \<le> c" by (simp add: c_def)
    from False have eq: "float32_round x = of_int (round_half_even z) * c"
      by (simp add: float32_round_def k_def z_def c_def Let_def)
    have x: "x = z * c" by (simp add: z_def c_def)
    have "float32_round x - x = (of_int (round_half_even z) - z) * c"
      unfolding eq by (subst x) (simp only: left_diff_distrib)
    then have "\<bar>float32_round x - x\<bar> = \<bar>of_int (round_half_even z) - z\<bar> * c"
      using c_pos by (simp only: abs_mult abs_of_nonneg)
    also have "\<dots> \<le> (1 / 2) * c"
      using c_pos by (intro mult_right_mono round_half_even_error)
    also have "\<dots> \<le> (1 / 2) * (2 ^ 126 / 2 ^ 149)"
    proof -
      have "nat k \<le> 126" using k by simp
      then have "(2::real) ^ nat k \<le> 2 ^ 126" by (intro power_increasing) simp_all
      then show ?thesis by (simp add: c_def divide_right_mono)
    qed
    also have "\<dots> = 1 / 2 ^ 24" by simp
    finally show ?thesis .
  qed
qed

lemma float32_round_2: "float32_round 2 = 2"
  by code_simp

lemma float32_round_error:
  assumes "0 \<le> x" "x \<le> 2"
  shows "\<bar>float32_round x - x\<bar> \<le> 1 / 2 ^ 24"
proof (cases "x = 2")
  case True
  then show ?thesis by (simp add: float32_round_2)
next
  case False
  with assms show ?thesis by (intro float32_round_error_below_2) simp_all
qed

lemma tf_add_error:
  assumes "0 \<le> y" "y \<le> 1" "0 \<le> h" "h \<le> 1"
  shows "\<bar>(tf_add y h - y) - h\<bar> \<le> 1 / 2 ^ 24"
proof -
  have "\<bar>float32_round (y + h) - (y + h)\<bar> \<le> 1 / 2 ^ 24"
    using assms by (intro float32_round_error) simp_all
  then show ?thesis by (simp add: tf_add_def algebra_simps)
qed

lemma sqrt_sixteenth: "sqrt (1 / 16) = 1 / 4"
  by (rule real_sqrt_unique) (simp_all add: power2_eq_square)



text \<open>Double precision: a value of at most 53 bits is its own rounding.\<close>

lemma round_half_even_of_int: "round_half_even (of_int n) = n"
  by (simp add: round_half_even_def)

lemma ieee_round_exact:
  assumes m: "0 < m" "m < 2 ^ p" and j: "j \<le> q"
  shows "ieee_round p q (of_int (m * 2 ^ i) / 2 ^ j) = of_int (m * 2 ^ i) / 2 ^ j"
proof -
  define e where "e = i + (q - j)"
  define x :: real where "x = of_int (m * 2 ^ i) / 2 ^ j"
  have q: "(2::real) ^ q = 2 ^ j * 2 ^ (q - j)"
    using j by (simp flip: power_add)
  have scaled: "x * 2 ^ q = of_int (m * 2 ^ e)"
    by (simp add: x_def q e_def power_add)
  have xpos: "0 \<le> x" using m by (simp add: x_def)
  have fl: "\<lfloor>\<bar>x\<bar> * 2 ^ q\<rfloor> = m * 2 ^ e"
    using xpos scaled by (simp only: abs_of_nonneg floor_of_int)
  have len: "bitlen (m * 2 ^ e) = bitlen m + int e"
    using m by simp
  have "bitlen m \<le> int p"
    using m by (simp add: bitlen_le_iff_power)
  define k where "k = bitlen m + int e - int p"
  show ?thesis
  proof (cases "k \<le> 0")
    case True
    then have "ieee_round p q x = of_int (round_half_even (x * 2 ^ q)) / 2 ^ q"
      by (simp only: ieee_round_def fl len k_def Let_def if_True)
    also have "\<dots> = x * 2 ^ q / 2 ^ q"
      by (simp only: scaled round_half_even_of_int)
    also have "\<dots> = x" by simp
    finally show ?thesis by (simp only: x_def)
  next
    case False
    then have kpos: "0 < k" by simp
    have ke: "nat k \<le> e" using \<open>bitlen m \<le> int p\<close> kpos by (simp add: k_def)
    have e: "(2::int) ^ e = 2 ^ (e - nat k) * 2 ^ nat k"
      using ke by (simp flip: power_add)
    have div: "x * 2 ^ q / 2 ^ nat k = of_int (m * 2 ^ (e - nat k))"
      unfolding scaled by (subst e) simp
    from False have "ieee_round p q x
        = of_int (round_half_even (x * 2 ^ q / 2 ^ nat k)) * 2 ^ nat k / 2 ^ q"
      by (simp only: ieee_round_def fl len k_def Let_def if_False)
    also have "\<dots> = of_int (m * 2 ^ (e - nat k)) * 2 ^ nat k / 2 ^ q"
      by (simp only: div round_half_even_of_int)
    also have "\<dots> = of_int (m * 2 ^ e) / 2 ^ q"
      by (subst e) simp
    also have "\<dots> = x * 2 ^ q / 2 ^ q" by (simp only: scaled)
    also have "\<dots> = x" by simp
    finally show ?thesis by (simp only: x_def)
  qed
qed

lemma float64_examples:
  "float64_round 1 = 1"
  "float64_round 16 = 16"
  "float64_round (1 / 4) = 1 / 4"
  "float64_round 4 = 4"
  using ieee_round_exact [of 1 53 0 1074 0] ieee_round_exact [of 1 53 0 1074 4]
    ieee_round_exact [of 1 53 2 1074 0] ieee_round_exact [of 1 53 0 1074 2]
  by (simp_all add: float64_round_def)

lemma py_float_of_int_power:
  assumes "n = 2 ^ i" "1024 \<le> i"
  shows "py_float_of_int n = Inl OverflowError"
proof -
  have "float64_round (of_int n) = 2 ^ i"
    using ieee_round_exact [of 1 53 0 1074 i] assms by (simp add: float64_round_def)
  moreover have "(2::real) ^ 1024 \<le> 2 ^ i"
    using assms by (intro power_increasing) simp_all
  ultimately show ?thesis
    by (simp only: py_float_of_int_def Let_def) simp
qed


lemma py_float_of_int_examples:
  "py_float_of_int 1 = Inr 1"
  "py_float_of_int 16 = Inr 16"
  by (simp_all add: py_float_of_int_def float64_examples)

lemma py_mul_int_float_examples:
  "py_mul_int_float 1 (1 / 4) = Inr (1 / 4)"
  "py_mul_int_float 16 (1 / 4) = Inr 4"
  by (simp_all add: py_mul_int_float_def py_float_of_int_examples float64_examples)

lemma py_int_of_int [simp]: "py_int (of_int n) = n"
  by (simp add: py_int_def)

lemma py_int_examples: "py_int (1 / 4) = 0" "py_int 4 = 4" "py_int 1 = 1" "py_int 16 = 16"
  by (simp_all add: py_int_def)

lemma tf_ops_unit [simp]:
  "tf_truediv 1 1 = Some 1" "tf_sqrt 1 = Some 1" "tf_multiply 1 1 = 1"
  "tf_subtract 1 1 = 0" "tf_add 0 1 = 1" "tf_clip_by_value 1 0 1 = 1"
  by (simp_all add: tf_truediv_def tf_sqrt_def tf_multiply_def tf_subtract_def tf_add_def
      tf_clip_by_value_def tf_maximum_def tf_minimum_def)

lemma tf_clip_by_value_spec_clip:
  "lo \<le> hi \<Longrightarrow> tf_clip_by_value t lo hi = spec_clip t lo hi"
  by (auto simp: tf_clip_by_value_def tf_maximum_def tf_minimum_def spec_clip_def)

lemma tf_clip_by_value_range:
  "lo \<le> hi \<Longrightarrow> lo \<le> tf_clip_by_value t lo hi \<and> tf_clip_by_value t lo hi \<le> hi"
  by (auto simp: tf_clip_by_value_def tf_maximum_def tf_minimum_def)

lemma stream_uniform_point: "stream_uniform u n 0 0 = (0, Suc n)"
  by (simp add: stream_uniform_def tf_add_def tf_multiply_def tf_subtract_def)


section \<open>Properties of the rectangle sampler\<close>

text \<open>
  C1. The rectangle that \<^verbatim>\<open>get_random_transformation\<close> returns is the one the
  algorithm of the specification computes from the two sampled values: the clipped
  square roots as height and width, one uniform draw per offset from
  \<open>[min 0 (1 - h), max 0 (1 - h)]\<close> and \<open>[min 0 (1 - w), max 0 (1 - w)]\<close>, and
  \<open>(y1, x1, y2, x2) = (height_offset, width_offset, height_offset + h, width_offset + w)\<close>,
  returned as a list holding that one box.
\<close>

theorem get_random_transformation_refines_spec:
  "get_random_transformation U self s =
     (let (area, s1) = area_factor self s;
          (aspect, s2) = aspect_ratio_factor self s1
      in map_option (\<lambda>((y1, x1, y2, x2), s'). ([[y1, x1, y2, x2]], s'))
           (spec_sample U area aspect s2))"
  by (auto simp: get_random_transformation_def spec_sample_def spec_candidate_size_def
      spec_offsets_def tf_clip_by_value_spec_clip tf_minimum_def tf_maximum_def Let_def
      split: prod.splits option.splits Option.bind_splits)

text \<open>
  The sampler on draws inside the domain of the arithmetic (a non-negative area factor
  and a positive aspect ratio): no intermediate value is undefined, and the call
  returns one box.
\<close>

lemma get_random_transformation_valid:
  assumes a: "area_factor self s = (a, s1)"
    and r: "aspect_ratio_factor self s1 = (r, s2)"
    and valid: "0 \<le> a" "0 < r"
    and h: "h = tf_clip_by_value (float32_round (sqrt (float32_round (a / r)))) 0 1"
    and w: "w = tf_clip_by_value (float32_round (sqrt (tf_multiply a r))) 0 1"
    and y1: "U s2 (tf_minimum 0 (tf_subtract 1 h)) (tf_maximum 0 (tf_subtract 1 h)) = (y1, s3)"
    and x1: "U s3 (tf_minimum 0 (tf_subtract 1 w)) (tf_maximum 0 (tf_subtract 1 w)) = (x1, s4)"
  shows "tf_truediv a r = Some (float32_round (a / r))"
    and "tf_sqrt (float32_round (a / r)) = Some (float32_round (sqrt (float32_round (a / r))))"
    and "tf_sqrt (tf_multiply a r) = Some (float32_round (sqrt (tf_multiply a r)))"
    and "get_random_transformation U self s = Some ([[y1, x1, tf_add y1 h, tf_add x1 w]], s4)"
proof -
  show q: "tf_truediv a r = Some (float32_round (a / r))"
    using valid by (simp add: tf_truediv_def)
  have "0 \<le> float32_round (a / r)"
    using valid by (intro float32_round_nonneg) simp
  then show rh: "tf_sqrt (float32_round (a / r))
                   = Some (float32_round (sqrt (float32_round (a / r))))"
    by (simp add: tf_sqrt_def)
  have "0 \<le> tf_multiply a r"
    unfolding tf_multiply_def using valid by (intro float32_round_nonneg) simp
  then show rw: "tf_sqrt (tf_multiply a r) = Some (float32_round (sqrt (tf_multiply a r)))"
    by (simp add: tf_sqrt_def)
  show "get_random_transformation U self s = Some ([[y1, x1, tf_add y1 h, tf_add x1 w]], s4)"
    by (simp add: get_random_transformation_def a r q rh rw h [symmetric] w [symmetric] y1 x1)
qed

lemma get_random_transformation_one_box:
  "get_random_transformation U self s = Some (boxes, s')
     \<Longrightarrow> \<exists>y1 x1 y2 x2. boxes = [[y1, x1, y2, x2]]"
  by (auto simp: get_random_transformation_def Let_def
      split: prod.splits Option.bind_splits)

subsection \<open>The sides of the rectangle\<close>

lemma example_quarter_ops:
  "tf_truediv (1 / 16) 1 = Some (1 / 16)"
  "tf_sqrt (1 / 16) = Some (1 / 4)"
  "tf_clip_by_value (1 / 4) 0 1 = 1 / 4"
  "tf_multiply (1 / 16) 1 = 1 / 16"
  "tf_subtract 1 (1 / 4) = 3 / 4"
  "tf_add (8388609 / 33554432) (1 / 4) = 1 / 2"
  "tf_add 0 (1 / 4) = 1 / 4"
  by (simp_all add: tf_truediv_def tf_sqrt_def tf_multiply_def tf_subtract_def tf_add_def
      tf_clip_by_value_def tf_maximum_def tf_minimum_def sqrt_sixteenth float32_examples)

lemma example_quarter_draws:
  "stream_uniform (unit_samples [2796203 / 8388608, 0]) 0 0 (3 / 4)
     = (8388609 / 33554432, 1)"
  "stream_uniform (unit_samples [2796203 / 8388608, 0]) (Suc 0) 0 (3 / 4) = (0, 2)"
  by (simp_all add: stream_uniform_def unit_samples_def tf_add_def tf_multiply_def
      tf_subtract_def float32_examples)

text \<open>
  C2, as stated, fails. With the area factor fixed at \<open>1/16\<close> and the aspect ratio at
  \<open>1\<close> the height is \<open>h = 1/4\<close>; when the unit sample of the height offset is
  \<open>2796203 / 2^23\<close> the offset is \<open>y1 = 1/4 + 2^-25\<close>, the float32 sum \<open>y1 + h\<close>
  rounds to \<open>y2 = 1/2\<close>, and \<open>y2 - y1\<close> is \<open>1/4 - 2^-25\<close>, not \<open>h\<close>.
\<close>

theorem rectangle_height_exact_counterexample:
  "tf_truediv (1 / 16) 1 = Some (1 / 16) \<and> tf_sqrt (1 / 16) = Some (1 / 4)
   \<and> tf_clip_by_value (1 / 4) 0 1 = 1 / 4
   \<and> get_random_transformation (stream_uniform (unit_samples [2796203 / 8388608, 0]))
        (example_layer (1 / 16) 1) 0
      = Some ([[8388609 / 33554432, 0, 1 / 2, 1 / 4]], 2)
   \<and> 1 / 2 - 8388609 / 33554432 \<noteq> (1 / 4 :: real)"
  by (simp add: get_random_transformation_def example_layer_def constant_sampler_def
      example_quarter_ops example_quarter_draws tf_minimum_def tf_maximum_def)

text \<open>
  C2, amended. For every draw of a non-negative area factor and a positive aspect
  ratio the call returns a rectangle \<open>(y1, x1, y2, x2)\<close> in which \<open>y2\<close> is the float32
  sum of \<open>y1\<close> and \<open>h\<close> and \<open>x2\<close> the float32 sum of \<open>x1\<close> and \<open>w\<close>, where \<open>h\<close> and \<open>w\<close>
  are the clipped candidate height and width of that call; \<open>h\<close> and \<open>w\<close> lie in
  \<open>[0, 1]\<close>; \<open>y2 - y1 = h\<close> (\<open>x2 - x1 = w\<close>) holds exactly whenever the sum
  \<open>y1 + h\<close> (\<open>x1 + w\<close>) is itself a float32 value; and for an offset in \<open>[0, 1]\<close>
  the difference \<open>y2 - y1\<close> (\<open>x2 - x1\<close>) is within \<open>2 ^ -24\<close> of \<open>h\<close> (\<open>w\<close>).
\<close>

theorem rectangle_sides_are_rounded_sums:
  assumes a: "area_factor self s = (a, s1)"
    and r: "aspect_ratio_factor self s1 = (r, s2)"
    and valid: "0 \<le> a" "0 < r"
  shows "\<exists>q rh rw y1 x1 s'.
           tf_truediv a r = Some q \<and> tf_sqrt q = Some rh
           \<and> tf_sqrt (tf_multiply a r) = Some rw
           \<and> get_random_transformation U self s
               = Some ([[y1, x1, tf_add y1 (tf_clip_by_value rh 0 1),
                         tf_add x1 (tf_clip_by_value rw 0 1)]], s')
           \<and> 0 \<le> tf_clip_by_value rh 0 1 \<and> tf_clip_by_value rh 0 1 \<le> 1
           \<and> 0 \<le> tf_clip_by_value rw 0 1 \<and> tf_clip_by_value rw 0 1 \<le> 1
           \<and> (float32_round (y1 + tf_clip_by_value rh 0 1) = y1 + tf_clip_by_value rh 0 1
                \<longrightarrow> tf_add y1 (tf_clip_by_value rh 0 1) - y1 = tf_clip_by_value rh 0 1)
           \<and> (float32_round (x1 + tf_clip_by_value rw 0 1) = x1 + tf_clip_by_value rw 0 1
                \<longrightarrow> tf_add x1 (tf_clip_by_value rw 0 1) - x1 = tf_clip_by_value rw 0 1)
           \<and> (0 \<le> y1 \<and> y1 \<le> 1 \<longrightarrow>
                \<bar>(tf_add y1 (tf_clip_by_value rh 0 1) - y1) - tf_clip_by_value rh 0 1\<bar>
                  \<le> 1 / 2 ^ 24)
           \<and> (0 \<le> x1 \<and> x1 \<le> 1 \<longrightarrow>
                \<bar>(tf_add x1 (tf_clip_by_value rw 0 1) - x1) - tf_clip_by_value rw 0 1\<bar>
                  \<le> 1 / 2 ^ 24)"
proof -
  define h where "h = tf_clip_by_value (float32_round (sqrt (float32_round (a / r)))) 0 1"
  define w where "w = tf_clip_by_value (float32_round (sqrt (tf_multiply a r))) 0 1"
  obtain y1 s3 where y1:
    "U s2 (tf_minimum 0 (tf_subtract 1 h)) (tf_maximum 0 (tf_subtract 1 h)) = (y1, s3)"
    by (cases "U s2 (tf_minimum 0 (tf_subtract 1 h)) (tf_maximum 0 (tf_subtract 1 h))")
  obtain x1 s4 where x1:
    "U s3 (tf_minimum 0 (tf_subtract 1 w)) (tf_maximum 0 (tf_subtract 1 w)) = (x1, s4)"
    by (cases "U s3 (tf_minimum 0 (tf_subtract 1 w)) (tf_maximum 0 (tf_subtract 1 w))")
  note run = get_random_transformation_valid [OF a r valid h_def w_def y1 x1]
  have bounds: "0 \<le> h \<and> h \<le> 1 \<and> 0 \<le> w \<and> w \<le> 1"
    using tf_clip_by_value_range [of 0 1] by (simp add: h_def w_def)
  have exact: "float32_round (y + v) = y + v \<longrightarrow> tf_add y v - y = v" for y v
    by (simp add: tf_add_def)
  have near_h: "0 \<le> y1 \<and> y1 \<le> 1 \<longrightarrow> \<bar>(tf_add y1 h - y1) - h\<bar> \<le> 1 / 2 ^ 24"
    using bounds tf_add_error [of y1 h] by blast
  have near_w: "0 \<le> x1 \<and> x1 \<le> 1 \<longrightarrow> \<bar>(tf_add x1 w - x1) - w\<bar> \<le> 1 / 2 ^ 24"
    using bounds tf_add_error [of x1 w] by blast
  show ?thesis
    using run bounds exact [of y1 h] exact [of x1 w] near_h near_w
    unfolding h_def w_def by blast
qed

theorem rectangle_sides_are_rounded_sums_witness:
  "\<exists>q rh rw y1 x1 s'.
     tf_truediv (1 / 16) 1 = Some q \<and> tf_sqrt q = Some rh
     \<and> tf_sqrt (tf_multiply (1 / 16) 1) = Some rw
     \<and> get_random_transformation (stream_uniform (unit_samples [1 / 2, 1 / 4]))
          (example_layer (1 / 16) 1) 0
         = Some ([[y1, x1, tf_add y1 (tf_clip_by_value rh 0 1),
                   tf_add x1 (tf_clip_by_value rw 0 1)]], s')
     \<and> 0 \<le> tf_clip_by_value rh 0 1 \<and> tf_clip_by_value rh 0 1 \<le> 1
     \<and> 0 \<le> tf_clip_by_value rw 0 1 \<and> tf_clip_by_value rw 0 1 \<le> 1
     \<and> (float32_round (y1 + tf_clip_by_value rh 0 1) = y1 + tf_clip_by_value rh 0 1
          \<longrightarrow> tf_add y1 (tf_clip_by_value rh 0 1) - y1 = tf_clip_by_value rh 0 1)
     \<and> (float32_round (x1 + tf_clip_by_value rw 0 1) = x1 + tf_clip_by_value rw 0 1
          \<longrightarrow> tf_add x1 (tf_clip_by_value rw 0 1) - x1 = tf_clip_by_value rw 0 1)
     \<and> (0 \<le> y1 \<and> y1 \<le> 1 \<longrightarrow>
          \<bar>(tf_add y1 (tf_clip_by_value rh 0 1) - y1) - tf_clip_by_value rh 0 1\<bar>
            \<le> 1 / 2 ^ 24)
     \<and> (0 \<le> x1 \<and> x1 \<le> 1 \<longrightarrow>
          \<bar>(tf_add x1 (tf_clip_by_value rw 0 1) - x1) - tf_clip_by_value rw 0 1\<bar>
            \<le> 1 / 2 ^ 24)"
  by (rule rectangle_sides_are_rounded_sums [of _ _ _ 0])
    (simp_all add: example_layer_def constant_sampler_def)

subsection \<open>The full image\<close>

text \<open>
  C8. When every draw of the area factor is \<open>1\<close> and every draw of the aspect ratio
  is \<open>1\<close>, the height and the width computed are both \<open>1\<close> and the rectangle returned
  is the full image \<open>(0, 0, 1, 1)\<close>, whatever the state of the generator; a uniform
  draw between \<open>0\<close> and \<open>0\<close> is \<open>0\<close>.
\<close>

theorem fixed_unit_factors_full_image:
  assumes area: "\<forall>s. fst (area_factor self s) = 1"
    and aspect: "\<forall>s. fst (aspect_ratio_factor self s) = 1"
    and point: "\<forall>s. fst (U s 0 0) = 0"
  shows "tf_truediv 1 1 = Some 1 \<and> tf_sqrt 1 = Some 1 \<and> tf_sqrt (tf_multiply 1 1) = Some 1
       \<and> tf_clip_by_value 1 0 1 = 1
       \<and> (\<exists>s'. get_random_transformation U self s = Some ([[0, 0, 1, 1]], s'))"
proof -
  obtain a s1 where a: "area_factor self s = (a, s1)" by (cases "area_factor self s")
  obtain r s2 where r: "aspect_ratio_factor self s1 = (r, s2)"
    by (cases "aspect_ratio_factor self s1")
  from area a have a1: "a = 1" by (metis fst_conv)
  from aspect r have r1: "r = 1" by (metis fst_conv)
  obtain ho s3 where ho: "U s2 0 0 = (ho, s3)" by (cases "U s2 0 0")
  obtain wo s4 where wo: "U s3 0 0 = (wo, s4)" by (cases "U s3 0 0")
  from point ho have ho0: "ho = 0" by (metis fst_conv)
  from point wo have wo0: "wo = 0" by (metis fst_conv)
  show ?thesis
    by (simp add: get_random_transformation_def a r a1 r1 tf_minimum_def tf_maximum_def
        ho wo ho0 wo0)
qed

theorem fixed_unit_factors_full_image_witness:
  "tf_truediv 1 1 = Some 1 \<and> tf_sqrt 1 = Some 1 \<and> tf_sqrt (tf_multiply 1 1) = Some 1
   \<and> tf_clip_by_value 1 0 1 = 1
   \<and> (\<exists>s'. get_random_transformation (stream_uniform (unit_samples [1 / 2, 1 / 4]))
             (example_layer 1 1) 0 = Some ([[0, 0, 1, 1]], s'))"
  by (rule fixed_unit_factors_full_image)
    (simp_all add: example_layer_def constant_sampler_def stream_uniform_point)

subsection \<open>Draws and determinism\<close>












section \<open>Properties of cropping and resizing\<close>

text \<open>
  C3. For an image of any height, width and depth and the boxes of any call of the
  sampler, \<^verbatim>\<open>augment_image\<close> returns an image whose height and width are the
  configured target size, provided \<^verbatim>\<open>tf.image.crop_and_resize\<close> returns one crop of
  the requested size per box, as documented.
\<close>

theorem augment_image_target_size:
  assumes contract:
      "\<forall>img boxes idx sz. length (shape img) = 4 \<and> length idx = length boxes \<longrightarrow>
         shape (CR img boxes idx sz) = [length boxes, fst sz, snd sz, shape img ! 3]"
    and rank: "shape image' = [H, W, C]"
    and rect: "get_random_transformation U self s = Some (boxes, s')"
  shows "\<exists>out. augment_image CR self image' boxes = Inr out
           \<and> shape out = [fst (target_size self), snd (target_size self), C]"
proof -
  from get_random_transformation_one_box [OF rect]
  have one: "length boxes = 1" by auto
  have expanded: "shape (tf_expand_dims image' 0) = [1, H, W, C]"
    by (simp add: tf_expand_dims_def rank)
  have "shape (CR (tf_expand_dims image' 0) boxes [0] (target_size self))
          = [1, fst (target_size self), snd (target_size self), C]"
    using contract [rule_format, of "tf_expand_dims image' 0" "[0]" boxes "target_size self"]
      expanded one by simp
  then show ?thesis
    by (simp add: augment_image_def tf_squeeze_def Let_def)
qed

lemma example_unit_run:
  "get_random_transformation (stream_uniform (unit_samples [])) (example_layer 1 1) 0
     = Some ([[0, 0, 1, 1]], 2)"
  by (simp add: get_random_transformation_def example_layer_def constant_sampler_def
      stream_uniform_point tf_maximum_def tf_minimum_def)

theorem augment_image_target_size_witness:
  "\<exists>out. augment_image example_crop_and_resize
            (example_layer 1 1 :: nat factor_sampler RandomResizedCrop)
            (example_image [300, 200, 3]) [[0, 0, 1, 1]] = Inr out
         \<and> shape out = [50, 50, 3]"
proof -
  have contract:
    "\<forall>img boxes idx sz. length (shape img) = 4 \<and> length idx = length boxes \<longrightarrow>
       shape (example_crop_and_resize img boxes idx sz)
         = [length boxes, fst sz, snd sz, shape img ! 3]"
    by (simp add: example_crop_and_resize_def)
  have rank: "shape (example_image [300, 200, 3]) = [300, 200, 3]"
    by (simp add: example_image_def)
  from augment_image_target_size [OF contract rank example_unit_run]
  show ?thesis by (simp add: example_layer_def)
qed

lemma call_inference:
  assumes fmt: "format_inputs base (ensure_inputs_are_compute_dtype base x)
                  = Inr (d, is_dict, use_targets)"
    and img: "d ''images'' = Some images"
  shows "call base SR cast self x False s
           = Inr (format_output base
                    (d(''images'' \<mapsto> cast (SR images (target_size self)) (compute_dtype base)))
                    is_dict use_targets, s)"
  by (simp add: call_def resize_def fmt img)

text \<open>
  C5. With \<^verbatim>\<open>training=False\<close> the call leaves the random state as it found it and
  its result does not depend on the two factor samplers: the sampler is not invoked.
  For a bare tensor, of a single image (\<open>batch = []\<close>) or of a batch alike, the output
  is the smart resize of the input to the target size, cast to the compute dtype, and
  its height and width are the target size. The helpers of the base class are taken
  to cast a bare tensor to the compute dtype, to wrap it as the \<^verbatim>\<open>images\<close> entry and
  to unwrap that entry again; \<^verbatim>\<open>smart_resize\<close> to return the requested size; the cast
  to keep the shape.
\<close>

theorem call_inference_smart_resize:
  assumes ensure: "ensure_inputs_are_compute_dtype base (Tensor x) = Tensor x'"
    and wrap: "format_inputs base (Tensor x') = Inr ([''images'' \<mapsto> x'], False, False)"
    and unwrap: "\<forall>out use_targets t. out ''images'' = Some t \<longrightarrow>
                   format_output base out False use_targets = Tensor t"
    and sr_shape: "\<forall>t sz. shape (SR t sz)
                     = take (length (shape t) - 3) (shape t) @ [fst sz, snd sz, last (shape t)]"
    and cast_shape: "\<forall>t d. shape (cast t d) = shape t \<and> dtype (cast t d) = d"
    and dims: "shape x' = batch @ [H, W, C]"
  shows "call base SR cast self (Tensor x) False s
           = Inr (Tensor (cast (SR x' (target_size self)) (compute_dtype base)), s)
       \<and> shape (cast (SR x' (target_size self)) (compute_dtype base))
           = batch @ [fst (target_size self), snd (target_size self), C]
       \<and> dtype (cast (SR x' (target_size self)) (compute_dtype base)) = compute_dtype base
       \<and> call base SR cast (self\<lparr>area_factor := f, aspect_ratio_factor := g\<rparr>)
            (Tensor x) False s
           = call base SR cast self (Tensor x) False s"
proof -
  have fmt: "format_inputs base (ensure_inputs_are_compute_dtype base (Tensor x))
               = Inr ([''images'' \<mapsto> x'], False, False)"
    by (simp add: ensure wrap)
  have run: "call base SR cast self' (Tensor x) False s
               = Inr (Tensor (cast (SR x' (target_size self')) (compute_dtype base)), s)"
    for self' :: "'c RandomResizedCrop"
    using call_inference [OF fmt, of x' SR cast self' s] unwrap by simp
  have "shape (SR x' (target_size self))
          = batch @ [fst (target_size self), snd (target_size self), C]"
    using sr_shape [rule_format, of x' "target_size self"] dims by simp
  then show ?thesis
    using run [of self] run [of "self\<lparr>area_factor := f, aspect_ratio_factor := g\<rparr>"]
      cast_shape by simp
qed

theorem call_inference_smart_resize_witness:
  "call (example_base :: nat BaseImageAugmentationLayer) example_smart_resize example_cast
      (example_layer 1 1 :: nat factor_sampler RandomResizedCrop)
      (Tensor (example_image [8, 300, 200, 3])) False 0
     = Inr (Tensor (example_cast (example_smart_resize
              (example_cast (example_image [8, 300, 200, 3]) ''float16'') (50, 50)) ''float16''), 0)
   \<and> shape (example_cast (example_smart_resize
              (example_cast (example_image [8, 300, 200, 3]) ''float16'') (50, 50)) ''float16'')
       = [8, 50, 50, 3]"
proof -
  let ?x = "example_image [8, 300, 200, 3]"
  let ?x' = "example_cast ?x ''float16''"
  let ?base = "example_base :: nat BaseImageAugmentationLayer"
  have ensure: "ensure_inputs_are_compute_dtype ?base (Tensor ?x) = Tensor ?x'"
    by (simp add: example_base_def)
  have wrap: "format_inputs ?base (Tensor ?x') = Inr ([''images'' \<mapsto> ?x'], False, False)"
    by (simp add: example_base_def)
  have unwrap: "\<forall>out use_targets t. out ''images'' = Some t \<longrightarrow>
                  format_output ?base out False use_targets = Tensor t"
    by (simp add: example_base_def)
  have sr_shape: "\<forall>t sz. shape (example_smart_resize t sz)
                    = take (length (shape t) - 3) (shape t) @ [fst sz, snd sz, last (shape t)]"
    by (simp add: example_smart_resize_def)
  have cast_shape: "\<forall>t d. shape (example_cast t d) = shape t \<and> dtype (example_cast t d) = d"
    by (simp add: example_cast_def)
  have dims: "shape ?x' = [8] @ [300, 200, 3]"
    by (simp add: example_cast_def example_image_def)
  from call_inference_smart_resize [OF ensure wrap unwrap sr_shape cast_shape dims,
      of "example_layer 1 1 :: nat factor_sampler RandomResizedCrop" 0]
  show ?thesis by (simp add: example_layer_def example_base_def)
qed

section \<open>Properties of the constructors\<close>

lemma py_eq_float_tuple [simp]: "py_eq_float (PTuple xs) c = False"
  by (simp add: py_eq_float_def)

text \<open>
  By the time the constructor compares \<^verbatim>\<open>aspect_ratio_factor\<close> with \<^verbatim>\<open>0.0\<close> the
  variable holds a non-empty tuple, so no construction emits the warning.
\<close>

lemma RandomResizedCrop_init_never_warns:
  "emitted_warnings (RandomResizedCrop_init pf ts a ar i sd) = []"
  by (auto simp: RandomResizedCrop_init_def emitted_warnings_def Let_def
      split: pyval.splits list.splits sum.splits option.splits prod.splits)

lemma RandomResizedCrop_init_falsy:
  "\<not> truthy v \<Longrightarrow>
     RandomResizedCrop_init pf ts a v i sd
       = RandomResizedCrop_init pf ts a default_aspect_ratio_factor i sd"
  by (simp add: RandomResizedCrop_init_def py_or_def default_aspect_ratio_factor_def)

text \<open>
  C6. The constructor does not accept the three documented forms: a single float
  (here \<open>0.5\<close>) is neither a tuple nor a sampler and raises the ValueError whose
  message names \<^verbatim>\<open>aspect_ratio_factor\<close>, and a FactorSampler leaves
  \<^verbatim>\<open>min_aspect_ratio\<close> unassigned, so that reading it for the call of
  \<^verbatim>\<open>parse_factor\<close> raises UnboundLocalError. Whatever \<^verbatim>\<open>parse_factor\<close> does.
\<close>

theorem aspect_ratio_float_and_sampler_rejected:
  "RandomResizedCrop_init pf ts a (PFloat (1 / 2)) i sd
     = Inl (ValueError aspect_ratio_message [PFloat (1 / 2)])
   \<and> RandomResizedCrop_init pf ts a (PFactorSampler n) i sd
     = Inl (UnboundLocalError ''min_aspect_ratio'')"
  by (simp add: RandomResizedCrop_init_def py_or_def)

text \<open>
  C7. Constructing the layer with both factors \<^verbatim>\<open>0.0\<close>, or both the range
  \<^verbatim>\<open>(0.0, 0.0)\<close>, emits no warning: the aspect ratio factor \<^verbatim>\<open>0.0\<close> has been
  replaced by the default range before the comparison, and a tuple is never equal to
  \<^verbatim>\<open>0.0\<close>.
\<close>

theorem zero_factors_no_warning:
  "emitted_warnings (RandomResizedCrop_init pf ts (PFloat 0) (PFloat 0) i sd) = []
   \<and> emitted_warnings (RandomResizedCrop_init pf ts (PTuple [0, 0]) (PTuple [0, 0]) i sd) = []
   \<and> RandomResizedCrop_init pf ts (PFloat 0) (PFloat 0) i sd
       = RandomResizedCrop_init pf ts (PFloat 0) default_aspect_ratio_factor i sd"
  by (simp add: RandomResizedCrop_init_never_warns RandomResizedCrop_init_falsy)

text \<open>
  C10. For each of the false values \<^verbatim>\<open>None\<close>, \<^verbatim>\<open>0\<close>, \<^verbatim>\<open>0.0\<close>, \<^verbatim>\<open>()\<close> and
  \<^verbatim>\<open>False\<close> as \<^verbatim>\<open>aspect_ratio_factor\<close>, the constructor behaves in every respect
  as for the default range \<open>(3/4, 4/3)\<close>, and emits no warning: the value has been
  replaced before the type is examined and before the comparison with \<^verbatim>\<open>0.0\<close>.
\<close>

theorem falsy_aspect_ratio_factor_is_default:
  assumes "v \<in> set [PNone, PInt 0, PFloat 0, PTuple [], PBool False]"
  shows "RandomResizedCrop_init pf ts a v i sd
           = RandomResizedCrop_init pf ts a default_aspect_ratio_factor i sd
       \<and> default_aspect_ratio_factor = PTuple [3 / 4, 4 / 3]
       \<and> emitted_warnings (RandomResizedCrop_init pf ts a v i sd) = []"
proof -
  from assms have "\<not> truthy v" by auto
  then show ?thesis
    by (simp add: RandomResizedCrop_init_falsy RandomResizedCrop_init_never_warns
        default_aspect_ratio_factor_def)
qed

lemma example_init_default:
  "RandomResizedCrop_init (example_parse_factor (unit_samples [])) (224, 224)
      (PFloat 0) default_aspect_ratio_factor ''bilinear'' None
    = Inr (\<lparr>target_size = (224, 224),
            aspect_ratio_factor = uniform_sampler (unit_samples []) (3 / 4) (4 / 3),
            area_factor = constant_sampler 0,
            interpolation = ''bilinear'', seed = None\<rparr>, [])"
  by (simp add: RandomResizedCrop_init_def example_parse_factor_def py_or_def
      default_aspect_ratio_factor_def py_eq_float_def)

theorem falsy_aspect_ratio_factor_is_default_witness:
  "RandomResizedCrop_init (example_parse_factor (unit_samples [])) (224, 224)
      (PFloat 0) (PFloat 0) ''bilinear'' None
    = Inr (\<lparr>target_size = (224, 224),
            aspect_ratio_factor = uniform_sampler (unit_samples []) (3 / 4) (4 / 3),
            area_factor = constant_sampler 0,
            interpolation = ''bilinear'', seed = None\<rparr>, [])"
proof -
  have "RandomResizedCrop_init (example_parse_factor (unit_samples [])) (224, 224)
          (PFloat 0) (PFloat 0) ''bilinear'' None
        = RandomResizedCrop_init (example_parse_factor (unit_samples [])) (224, 224)
            (PFloat 0) default_aspect_ratio_factor ''bilinear'' None"
    by (rule falsy_aspect_ratio_factor_is_default [THEN conjunct1]) simp
  then show ?thesis by (simp only: example_init_default)
qed

text \<open>An int too large for a float stops the constructor at the product.\<close>

lemma SqueezeAndExciteBlock2D_init_overflow:
  assumes "py_float_of_int n = Inl OverflowError" "0 < n" "0 < x" "x < 1"
  shows "SqueezeAndExciteBlock2D_init conv2d (PInt n) (PFloat x) sa ea = Inl OverflowError"
  using assms by (simp add: SqueezeAndExciteBlock2D_init_def py_mul_int_float_def)

text \<open>
  C9, as stated, fails in its second half. With \<^verbatim>\<open>filters=1\<close> and \<^verbatim>\<open>ratio=0.25\<close>
  both checks pass, \<^verbatim>\<open>int(filters * ratio)\<close> is \<open>0\<close>, and the \<^verbatim>\<open>Conv2D\<close> constructor
  raises on \<open>0\<close> filters; with \<^verbatim>\<open>filters=2**1024\<close> and \<^verbatim>\<open>ratio=0.5\<close> both checks
  pass and the product raises OverflowError, whatever \<^verbatim>\<open>Conv2D\<close> does.
\<close>

theorem SqueezeAndExciteBlock2D_init_success_counterexample:
  "ratio_in_open_unit (PFloat (1 / 4)) \<and> positive_integer (PInt 1)
   \<and> SqueezeAndExciteBlock2D_init keras_conv2d (PInt 1) (PFloat (1 / 4)) ''relu'' ''sigmoid''
       = Inl (ValueError keras_filters_message [PInt 0])
   \<and> ratio_in_open_unit (PFloat (1 / 2)) \<and> positive_integer (PInt (2 ^ 1024))
   \<and> SqueezeAndExciteBlock2D_init keras_conv2d (PInt (2 ^ 1024)) (PFloat (1 / 2))
        ''relu'' ''sigmoid''
       = Inl OverflowError"
proof -
  have small: "SqueezeAndExciteBlock2D_init keras_conv2d (PInt 1) (PFloat (1 / 4))
                 ''relu'' ''sigmoid'' = Inl (ValueError keras_filters_message [PInt 0])"
    by (simp add: SqueezeAndExciteBlock2D_init_def keras_conv2d_def
        py_mul_int_float_examples py_int_examples)
  have "py_float_of_int (2 ^ 1024) = Inl OverflowError"
    by (rule py_float_of_int_power [of _ 1024]) simp_all
  then have huge: "SqueezeAndExciteBlock2D_init keras_conv2d (PInt (2 ^ 1024)) (PFloat (1 / 2))
                 ''relu'' ''sigmoid'' = Inl OverflowError"
    by (rule SqueezeAndExciteBlock2D_init_overflow) simp_all
  have "ratio_in_open_unit (PFloat (1 / 4))" "ratio_in_open_unit (PFloat (1 / 2))"
    by (simp_all add: ratio_in_open_unit_def)
  moreover have "positive_integer (PInt 1)" "positive_integer (PInt (2 ^ 1024))"
    by simp_all
  ultimately show ?thesis using small huge by blast
qed

lemma positive_integer_value:
  "positive_integer f \<Longrightarrow> \<exists>n. py_num f = Some (of_int n) \<and> 0 < n \<and> isinstance_int f"
  by (cases f) (auto intro: exI [of _ 1])

lemma ratio_in_open_unit_float:
  assumes "ratio_in_open_unit r"
  shows "\<exists>x. r = PFloat x \<and> 0 < x \<and> x < 1"
proof (cases r)
  case (PInt i)
  with assms have "0 < (of_int i :: real)" "(of_int i :: real) < 1"
    by (simp_all add: ratio_in_open_unit_def)
  then have "0 < i" "i < 1" by linarith+
  then show ?thesis by simp
qed (use assms in \<open>auto simp: ratio_in_open_unit_def split: if_splits\<close>)

text \<open>
  C9, amended. The constructor of \<^verbatim>\<open>SqueezeAndExciteBlock2D\<close> raises whenever the
  ratio does not lie strictly between \<open>0\<close> and \<open>1\<close> or the number of filters is not a
  positive integer: the ValueError of the failed check when both arguments are
  numbers. When both checks pass, the ratio is a float \<open>x\<close> and the filters an int
  \<open>n\<close>, and the construction succeeds exactly when the product \<^verbatim>\<open>n * x\<close> can be
  formed and the two \<^verbatim>\<open>Conv2D\<close> constructors accept \<^verbatim>\<open>int(n * x)\<close> and \<open>n\<close> filters.
\<close>

theorem SqueezeAndExciteBlock2D_init_checks:
  "(\<not> (ratio_in_open_unit r \<and> positive_integer f) \<longrightarrow>
      (\<exists>e. SqueezeAndExciteBlock2D_init conv2d f r sa ea = Inl e))
   \<and> (\<not> (ratio_in_open_unit r \<and> positive_integer f) \<and> py_num r \<noteq> None
        \<and> py_num f \<noteq> None \<longrightarrow>
      (\<exists>msg args. SqueezeAndExciteBlock2D_init conv2d f r sa ea
         = Inl (ValueError msg args)))
   \<and> (ratio_in_open_unit r \<and> positive_integer f \<longrightarrow>
      (\<exists>n x. py_num f = Some (of_int n) \<and> 0 < n \<and> r = PFloat x
         \<and> ((\<exists>layer. SqueezeAndExciteBlock2D_init conv2d f r sa ea = Inr layer)
              \<longleftrightarrow> (\<exists>p sc ec. py_mul_int_float n x = Inr p
                     \<and> conv2d (py_int p) sa = Inr sc \<and> conv2d n ea = Inr ec))))"
proof -
  have bad: "\<exists>e. SqueezeAndExciteBlock2D_init conv2d f r sa ea = Inl e"
    if "\<not> (ratio_in_open_unit r \<and> positive_integer f)"
    using that
    by (cases f; cases r)
      (auto simp: SqueezeAndExciteBlock2D_init_def ratio_in_open_unit_def
        split: option.splits if_splits)
  have bad_value: "\<exists>msg args. SqueezeAndExciteBlock2D_init conv2d f r sa ea
                     = Inl (ValueError msg args)"
    if "\<not> (ratio_in_open_unit r \<and> positive_integer f)" "py_num r \<noteq> None" "py_num f \<noteq> None"
    using that
    by (cases f; cases r)
      (auto simp: SqueezeAndExciteBlock2D_init_def ratio_in_open_unit_def
        split: option.splits if_splits)
  have good: "\<exists>n x. py_num f = Some (of_int n) \<and> 0 < n \<and> r = PFloat x
         \<and> ((\<exists>layer. SqueezeAndExciteBlock2D_init conv2d f r sa ea = Inr layer)
              \<longleftrightarrow> (\<exists>p sc ec. py_mul_int_float n x = Inr p
                     \<and> conv2d (py_int p) sa = Inr sc \<and> conv2d n ea = Inr ec))"
    if ok: "ratio_in_open_unit r" "positive_integer f"
  proof -
    from positive_integer_value [OF ok(2)] obtain n where
      n: "py_num f = Some (of_int n)" "0 < n" "isinstance_int f" by blast
    from ratio_in_open_unit_float [OF ok(1)] obtain x where
      x: "r = PFloat x" "0 < x" "x < 1" by blast
    have "(\<exists>layer. SqueezeAndExciteBlock2D_init conv2d f r sa ea = Inr layer)
            \<longleftrightarrow> (\<exists>p sc ec. py_mul_int_float n x = Inr p
                   \<and> conv2d (py_int p) sa = Inr sc \<and> conv2d n ea = Inr ec)"
      using n x
      by (auto simp: SqueezeAndExciteBlock2D_init_def Let_def split: sum.splits)
    with n x show ?thesis by blast
  qed
  from good bad bad_value show ?thesis by blast
qed

theorem SqueezeAndExciteBlock2D_init_checks_witness:
  "(\<exists>layer. SqueezeAndExciteBlock2D_init keras_conv2d (PInt 16) (PFloat (1 / 4))
              ''relu'' ''sigmoid'' = Inr layer)
   \<and> (\<exists>e. SqueezeAndExciteBlock2D_init keras_conv2d (PInt 16) (PFloat 1)
              ''relu'' ''sigmoid'' = Inl e)
   \<and> (\<exists>msg args. SqueezeAndExciteBlock2D_init keras_conv2d (PFloat 16) (PFloat (1 / 4))
              ''relu'' ''sigmoid'' = Inl (ValueError msg args))"
proof -
  have ok: "ratio_in_open_unit (PFloat (1 / 4)) \<and> positive_integer (PInt 16)"
    by (simp add: ratio_in_open_unit_def)
  have accepted: "\<exists>p sc ec. py_mul_int_float 16 (1 / 4) = Inr p
      \<and> keras_conv2d (py_int p) ''relu'' = Inr sc \<and> keras_conv2d 16 ''sigmoid'' = Inr ec"
    by (simp add: py_mul_int_float_examples py_int_examples keras_conv2d_def)
  from SqueezeAndExciteBlock2D_init_checks [of "PFloat (1 / 4)" "PInt 16" keras_conv2d
      "''relu''" "''sigmoid''"] ok
  obtain n x where nx: "py_num (PInt 16) = Some (of_int n)" "PFloat (1 / 4) = PFloat x"
    and iff: "(\<exists>layer. SqueezeAndExciteBlock2D_init keras_conv2d (PInt 16) (PFloat (1 / 4))
                ''relu'' ''sigmoid'' = Inr layer)
              \<longleftrightarrow> (\<exists>p sc ec. py_mul_int_float n x = Inr p
                     \<and> keras_conv2d (py_int p) ''relu'' = Inr sc
                     \<and> keras_conv2d n ''sigmoid'' = Inr ec)"
    by blast
  from nx have "n = 16" "x = 1 / 4" by simp_all
  with iff accepted have first:
    "\<exists>layer. SqueezeAndExciteBlock2D_init keras_conv2d (PInt 16) (PFloat (1 / 4))
              ''relu'' ''sigmoid'' = Inr layer"
    by simp
  from SqueezeAndExciteBlock2D_init_checks [of "PFloat 1" "PInt 16" keras_conv2d
      "''relu''" "''sigmoid''"]
    SqueezeAndExciteBlock2D_init_checks [of "PFloat (1 / 4)" "PFloat 16" keras_conv2d
      "''relu''" "''sigmoid''"]
  have rest: "(\<exists>e. SqueezeAndExciteBlock2D_init keras_conv2d (PInt 16) (PFloat 1)
              ''relu'' ''sigmoid'' = Inl e)
   \<and> (\<exists>msg args. SqueezeAndExciteBlock2D_init keras_conv2d (PFloat 16) (PFloat (1 / 4))
              ''relu'' ''sigmoid'' = Inl (ValueError msg args))"
    by (simp add: ratio_in_open_unit_def)
  from first rest show ?thesis by blast
qed


end
